theory Spec2Isabelle
  imports Main
begin

section \<open>Values, errors, promises and the log\<close>

text \<open>
  The driver (src/lib/driver.ts) is JavaScript: its arguments are untyped values at run
  time. \<open>jsval\<close> holds the values the modelled functions inspect. Numbers are integers
  here (no NaN, no fractions); objects are association lists of their own properties.
\<close>

datatype jsval =
    JUndefined
  | JNull
  | JBool bool
  | JNum int
  | JStr string
  | JArr "jsval list"
  | JObj "(string \<times> jsval) list"

text \<open>The condition of \<open>if (v)\<close> and \<open>(v) ? a : b\<close>.\<close>

fun truthy :: "jsval \<Rightarrow> bool" where
  "truthy JUndefined = False"
| "truthy JNull = False"
| "truthy (JBool b) = b"
| "truthy (JNum n) = (n \<noteq> 0)"
| "truthy (JStr s) = (s \<noteq> [])"
| "truthy (JArr xs) = True"
| "truthy (JObj fs) = True"

text \<open>\<open>new Error(message)\<close>, \<open>TypeError\<close> for a property read on null or undefined.\<close>

datatype js_error = Error string | TypeError string

text \<open>
  The state of a promise once the event loop has run as far as it ever will:
  \<open>Pending\<close> is a promise that never settles.
\<close>

datatype 'a settle = Pending | Resolved 'a | Rejected js_error

text \<open>
  One line of the logger. The text before an interpolated value is kept as a string and
  the value itself (what \<open>JSON.stringify\<close> or the template would print) beside it.
\<close>

datatype log_entry =
    Info string
  | InfoV string jsval
  | Debug string
  | DebugV string jsval
  | Err string js_error

section \<open>The module state\<close>

text \<open>
  A subscription is an object of the transport; \<open>ref\<close> stands for its identity (the
  \<open>===\<close> of \<open>indexOf\<close>) and \<open>sub_id\<close> is its \<open>id\<close> property.
\<close>

datatype subscription = Subscription (ref: nat) (sub_id: string)

text \<open>
  Every call into the transport (asteroid) is recorded, in order. The position of a call
  in the trace names the promise that call returned.
\<close>

datatype transport_call =
    Apply string "jsval list"
  | Call string jsval
  | Subscribe string string bool
  | Stop subscription
  | Logout

text \<open>
  A bucket of the method cache: the entries are (key, promise, insertedAt), the most
  recently used first. A promise is named by the position of the remote call that made
  it in the trace.
\<close>

record bucket =
  capacity :: nat
  maxAgeMs :: nat
  entries :: "(jsval \<times> nat \<times> nat) list"

record driver =
  subscriptions :: "subscription list"
  trace :: "transport_call list"
  log :: "log_entry list"
  buckets :: "string \<rightharpoonup> bucket"

definition logger :: "log_entry \<Rightarrow> 'a driver_scheme \<Rightarrow> 'a driver_scheme" where
  "logger e st = st\<lparr>log := log st @ [e]\<rparr>"

definition transport :: "transport_call \<Rightarrow> 'a driver_scheme \<Rightarrow> 'a driver_scheme" where
  "transport c st = st\<lparr>trace := trace st @ [c]\<rparr>"

section \<open>Subscriptions\<close>

text \<open>\<open>Array.prototype.indexOf\<close>: the first index holding the object, \<open>None\<close> for -1.\<close>

fun indexOf :: "'a list \<Rightarrow> 'a \<Rightarrow> nat option" where
  "indexOf [] x = None"
| "indexOf (y # ys) x = (if y = x then Some 0 else map_option Suc (indexOf ys x))"

text \<open>\<open>xs.splice(i, 1)\<close>: the element at \<open>i\<close> is removed and the rest moves down.\<close>

definition splice1 :: "'a list \<Rightarrow> nat \<Rightarrow> 'a list" where
  "splice1 xs i = take i xs @ drop (Suc i) xs"

text \<open>
  \<^verbatim>\<open>
  export function unsubscribe (subscription: ISubscription): void {
    const index = subscriptions.indexOf(subscription)
    if (index === -1) return
    subscription.stop()
    subscriptions.splice(index, 1) // remove from collection
    logger.info(`[${subscription.id}] Unsubscribed`)
  }
  \<close>
\<close>

definition unsubscribe :: "subscription \<Rightarrow> 'a driver_scheme \<Rightarrow> 'a driver_scheme" where
  "unsubscribe subscription st =
     (case indexOf (subscriptions st) subscription of
        None \<Rightarrow> st
      | Some index \<Rightarrow>
          logger (Info (''['' @ sub_id subscription @ ''] Unsubscribed''))
            ((transport (Stop subscription) st)
               \<lparr>subscriptions := splice1 (subscriptions st) index\<rparr>))"

text \<open>
  \<^verbatim>\<open>
  export function unsubscribeAll (): void {
    subscriptions.map((s: ISubscription) => unsubscribe(s))
  }
  \<close>
  \<open>Array.prototype.map\<close> reads the length once, then visits k = 0, 1, ..., length - 1 and
  calls the function on the element that is at index k of the array at that moment, if
  there still is one. The callback splices the very array that is being walked, so the
  loop is written over the live state: \<open>arrayMap_unsubscribe n k\<close> has \<open>n\<close> indices left
  to visit, the next one being \<open>k\<close>.
\<close>

fun arrayMap_unsubscribe :: "nat \<Rightarrow> nat \<Rightarrow> 'a driver_scheme \<Rightarrow> 'a driver_scheme" where
  "arrayMap_unsubscribe 0 k st = st"
| "arrayMap_unsubscribe (Suc n) k st =
     arrayMap_unsubscribe n (Suc k)
       (if k < length (subscriptions st) then unsubscribe (subscriptions st ! k) st else st)"

definition unsubscribeAll :: "'a driver_scheme \<Rightarrow> 'a driver_scheme" where
  "unsubscribeAll st = arrayMap_unsubscribe (length (subscriptions st)) 0 st"

text \<open>The calls of \<open>stop\<close> a state has seen, in order.\<close>

fun stopped :: "transport_call list \<Rightarrow> subscription list" where
  "stopped [] = []"
| "stopped (Stop s # cs) = s # stopped cs"
| "stopped (c # cs) = stopped cs"

section \<open>The method cache\<close>

text \<open>
  src/lib/methodCache.ts (\<open>create\<close>, \<open>has\<close>, \<open>get\<close>, \<open>put\<close>, \<open>call\<close>) is not among
  the sources; the definitions of this section follow section 4.1 of the specification.
  \<open>now\<close> is the clock read by the operation, in milliseconds. Keys are compared by
  value, as strings are.
\<close>

text \<open>
  Modelled from the spec: \<open>methodCache.create\<close> is missing.
  \<open>create(methodName, {capacity, maxAgeMs})\<close>: registers a bucket; re-registering the
  same name replaces its policy and clears its entries.
\<close>

definition methodCache_create :: "string \<Rightarrow> nat \<Rightarrow> nat \<Rightarrow> 'a driver_scheme \<Rightarrow> 'a driver_scheme" where
  "methodCache_create methodName cap age st =
     st\<lparr>buckets := (buckets st)(methodName \<mapsto> \<lparr>capacity = cap, maxAgeMs = age, entries = []\<rparr>)\<rparr>"

text \<open>
  Modelled from the spec: \<open>methodCache.has\<close> is missing.
  \<open>has(methodName)\<close>: true iff a bucket is registered for that name.
\<close>

definition methodCache_has :: "string \<Rightarrow> 'a driver_scheme \<Rightarrow> bool" where
  "methodCache_has methodName st = (buckets st methodName \<noteq> None)"

text \<open>
  Modelled from the spec: the lookup inside a bucket is missing. The first entry stored
  under a key.
\<close>

fun find_entry :: "jsval \<Rightarrow> (jsval \<times> nat \<times> nat) list \<Rightarrow> (jsval \<times> nat \<times> nat) option" where
  "find_entry key [] = None"
| "find_entry key (e # es) = (if fst e = key then Some e else find_entry key es)"

text \<open>
  Modelled from the spec: overwriting and promoting an entry are missing. The entries
  without those of a key.
\<close>

definition remove_key :: "jsval \<Rightarrow> (jsval \<times> nat \<times> nat) list \<Rightarrow> (jsval \<times> nat \<times> nat) list" where
  "remove_key key es = filter (\<lambda>e. fst e \<noteq> key) es"

text \<open>
  Modelled from the spec: the expiry test is missing.
  An entry older than \<open>maxAgeMs\<close> is treated as absent on lookup.
\<close>

definition expired :: "nat \<Rightarrow> bucket \<Rightarrow> (jsval \<times> nat \<times> nat) \<Rightarrow> bool" where
  "expired now b e = (now - snd (snd e) > maxAgeMs b)"

text \<open>
  Modelled from the spec: \<open>methodCache.get\<close> is missing.
  \<open>get(methodName, key)\<close>: the entry if present and not expired; a successful hit
  promotes the entry to most recently used.
\<close>

definition methodCache_get ::
  "nat \<Rightarrow> string \<Rightarrow> jsval \<Rightarrow> 'a driver_scheme \<Rightarrow> nat option \<times> 'a driver_scheme" where
  "methodCache_get now methodName key st =
     (case buckets st methodName of
        None \<Rightarrow> (None, st)
      | Some b \<Rightarrow>
          (case find_entry key (entries b) of
             None \<Rightarrow> (None, st)
           | Some e \<Rightarrow>
               if expired now b e then (None, st)
               else (Some (fst (snd e)),
                     st\<lparr>buckets := (buckets st)(methodName \<mapsto>
                          b\<lparr>entries := e # remove_key key (entries b)\<rparr>)\<rparr>)))"

text \<open>
  Modelled from the spec: \<open>methodCache.put\<close> is missing.
  \<open>put(methodName, key, valueOrPromise)\<close>: inserts or overwrites the entry with the
  current timestamp; if the bucket then holds more than \<open>capacity\<close> entries, the least
  recently used one (the last) is evicted.
\<close>

definition methodCache_put ::
  "nat \<Rightarrow> string \<Rightarrow> jsval \<Rightarrow> nat \<Rightarrow> 'a driver_scheme \<Rightarrow> 'a driver_scheme" where
  "methodCache_put now methodName key promise st =
     (case buckets st methodName of
        None \<Rightarrow> st
      | Some b \<Rightarrow>
          (let es = (key, promise, now) # remove_key key (entries b);
               es' = (if length es > capacity b then butlast es else es)
           in st\<lparr>buckets := (buckets st)(methodName \<mapsto> b\<lparr>entries := es'\<rparr>)\<rparr>))"

text \<open>
  Modelled from the spec: \<open>methodCache.call\<close> is missing.
  \<open>call(methodName, key)\<close>: on a hit, the cached promise; on a miss, the remote method
  is invoked with \<open>key\<close> as its single argument, the pending promise itself is stored as
  the entry, and returned. The specification gives \<open>call\<close> no behaviour for a method
  without a bucket: the result is \<open>None\<close> there.
\<close>

definition methodCache_call ::
  "nat \<Rightarrow> string \<Rightarrow> jsval \<Rightarrow> 'a driver_scheme \<Rightarrow> (nat \<times> 'a driver_scheme) option" where
  "methodCache_call now methodName key st =
     (if \<not> methodCache_has methodName st then None
      else (case methodCache_get now methodName key st of
              (Some promise, st') \<Rightarrow> Some (promise, st')
            | (None, st') \<Rightarrow>
                (let promise = length (trace st');
                     st'' = transport (Call methodName key) st'
                 in Some (promise, methodCache_put now methodName key promise st''))))"

section \<open>Direct and cached calls\<close>

text \<open>
  The environment variables read by \<open>setupMethodCache\<close>, after \<open>parseInt\<close> and the
  defaults \<open>'10'\<close>, \<open>'300'\<close>, \<open>'10'\<close>, \<open>'100'\<close>.
\<close>

record cache_env =
  ROOM_CACHE_SIZE :: nat
  ROOM_CACHE_MAX_AGE :: nat
  DM_ROOM_CACHE_SIZE :: nat
  DM_ROOM_CACHE_MAX_AGE :: nat

definition default_env :: cache_env where
  "default_env = \<lparr>ROOM_CACHE_SIZE = 10, ROOM_CACHE_MAX_AGE = 300,
                   DM_ROOM_CACHE_SIZE = 10, DM_ROOM_CACHE_MAX_AGE = 100\<rparr>"

text \<open>
  \<^verbatim>\<open>
  function setupMethodCache (asteroid: IAsteroid): void {
    methodCache.use(asteroid)
    methodCache.create('getRoomIdByNameOrId', { max: ROOM_CACHE_SIZE, maxAge: 1000 * ROOM_CACHE_MAX_AGE }),
    methodCache.create('getRoomNameById', { max: ROOM_CACHE_SIZE, maxAge: 1000 * ROOM_CACHE_MAX_AGE })
    methodCache.create('createDirectMessage', { max: DM_ROOM_CACHE_SIZE, maxAge: 1000 * DM_ROOM_CACHE_MAX_AGE })
  }
  \<close>
\<close>

definition setupMethodCache :: "cache_env \<Rightarrow> 'a driver_scheme \<Rightarrow> 'a driver_scheme" where
  "setupMethodCache env st =
     methodCache_create ''createDirectMessage'' (DM_ROOM_CACHE_SIZE env) (1000 * DM_ROOM_CACHE_MAX_AGE env)
       (methodCache_create ''getRoomNameById'' (ROOM_CACHE_SIZE env) (1000 * ROOM_CACHE_MAX_AGE env)
          (methodCache_create ''getRoomIdByNameOrId'' (ROOM_CACHE_SIZE env) (1000 * ROOM_CACHE_MAX_AGE env) st))"

text \<open>
  The two handlers chained on every call:
  \<^verbatim>\<open>
    .catch((err: Error) => {
      logger.error(`[${method}] Error:`, err)
      throw err // throw after log to stop async chain
    })
    .then((result: any) => {
      (result)
        ? logger.debug(`[${method}] Success: ${JSON.stringify(result)}`)
        : logger.debug(`[${method}] Success`)
      return result
    })
  \<close>
  Each takes the settlement of the promise before it and gives the settlement of the
  promise it returns; a handler that does not apply passes the settlement through.
\<close>

definition catch_log ::
  "string \<Rightarrow> jsval settle \<times> 'a driver_scheme \<Rightarrow> jsval settle \<times> 'a driver_scheme" where
  "catch_log method r =
     (case fst r of
        Rejected err \<Rightarrow> (Rejected err, logger (Err (''['' @ method @ ''] Error:'') err) (snd r))
      | _ \<Rightarrow> r)"

definition then_log ::
  "string \<Rightarrow> jsval settle \<times> 'a driver_scheme \<Rightarrow> jsval settle \<times> 'a driver_scheme" where
  "then_log method r =
     (case fst r of
        Resolved result \<Rightarrow>
          (Resolved result,
           logger (if truthy result then DebugV (''['' @ method @ ''] Success: '') result
                   else Debug (''['' @ method @ ''] Success'')) (snd r))
      | _ \<Rightarrow> r)"

text \<open>
  \<^verbatim>\<open>
  export function asyncCall (method: string, params: any | any[]): Promise<any> {
    if (!Array.isArray(params)) params = [params] // cast to array for apply
    logger.info(`[${method}] Calling (async): ${JSON.stringify(params)}`)
    return Promise.resolve(asteroid.apply(method, params).result)
      .catch(...)
      .then(...)
  }
  \<close>
  \<open>settles p\<close> is how the promise of the transport's p-th call settles.
\<close>

definition asyncCall ::
  "(nat \<Rightarrow> jsval settle) \<Rightarrow> string \<Rightarrow> jsval \<Rightarrow> 'a driver_scheme \<Rightarrow> jsval settle \<times> 'a driver_scheme" where
  "asyncCall settles method params st =
     (let params' = (case params of JArr xs \<Rightarrow> xs | _ \<Rightarrow> [params]);
          st1 = logger (InfoV (''['' @ method @ ''] Calling (async): '') (JArr params')) st;
          promise = length (trace st1);
          st2 = transport (Apply method params') st1
      in then_log method (catch_log method (settles promise, st2)))"

text \<open>
  \<^verbatim>\<open>
  export function cacheCall (method: string, key: string): Promise<any> {
    return methodCache.call(method, key)
      .catch(...)
      .then(...)
  }
  \<close>
\<close>

definition cacheCall ::
  "(nat \<Rightarrow> jsval settle) \<Rightarrow> nat \<Rightarrow> string \<Rightarrow> jsval \<Rightarrow> 'a driver_scheme
     \<Rightarrow> (jsval settle \<times> 'a driver_scheme) option" where
  "cacheCall settles now method key st =
     (case methodCache_call now method key st of
        None \<Rightarrow> None
      | Some (promise, st') \<Rightarrow> Some (then_log method (catch_log method (settles promise, st'))))"

text \<open>
  \<^verbatim>\<open>
  export function callMethod (name: string, params: any | any[]): Promise<any> {
    return (methodCache.has(name))
      ? asyncCall(name, params)
      : cacheCall(name, params)
  }
  \<close>
\<close>

definition callMethod ::
  "(nat \<Rightarrow> jsval settle) \<Rightarrow> nat \<Rightarrow> string \<Rightarrow> jsval \<Rightarrow> 'a driver_scheme
     \<Rightarrow> (jsval settle \<times> 'a driver_scheme) option" where
  "callMethod settles now name params st =
     (if methodCache_has name st
      then Some (asyncCall settles name params st)
      else cacheCall settles now name params st)"




section \<open>Logging out and disconnecting\<close>

text \<open>
  \<^verbatim>\<open>
  export function logout (): Promise<void | null> {
    return asteroid.logout().catch((err: Error) => {
      logger.error('[Logout] Error:', err)
      throw err // throw after log to stop async chain
    })
  }
  \<close>
\<close>

definition logout ::
  "(nat \<Rightarrow> jsval settle) \<Rightarrow> 'a driver_scheme \<Rightarrow> jsval settle \<times> 'a driver_scheme" where
  "logout settles st =
     (let promise = length (trace st);
          st1 = transport Logout st
      in (case settles promise of
            Rejected err \<Rightarrow> (Rejected err, logger (Err ''[Logout] Error:'' err) st1)
          | r \<Rightarrow> (r, st1)))"

text \<open>
  \<^verbatim>\<open>
  export function disconnect (): Promise<void> {
    logger.info('Unsubscribing, logging out, disconnecting')
    unsubscribeAll()
    return logout().then(() => Promise.resolve())
  }
  \<close>
\<close>

definition disconnect ::
  "(nat \<Rightarrow> jsval settle) \<Rightarrow> 'a driver_scheme \<Rightarrow> jsval settle \<times> 'a driver_scheme" where
  "disconnect settles st =
     (let st1 = logger (Info ''Unsubscribing, logging out, disconnecting'') st;
          st2 = unsubscribeAll st1;
          r = logout settles st2
      in (case fst r of
            Resolved v \<Rightarrow> (Resolved JUndefined, snd r)
          | _ \<Rightarrow> r))"

section \<open>Subscribing\<close>

text \<open>
  \<^verbatim>\<open>
  export function subscribe (topic: string, roomId: string): Promise<ISubscription> {
    return new Promise((resolve, reject) => {
      logger.info(`[subscribe] Preparing subscription: ${topic}: ${roomId}`)
      const subscription = asteroid.subscribe(topic, roomId, true)
      subscriptions.push(subscription)
      return subscription.ready.then((id) => {
        logger.info(`[subscribe] Stream ready: ${id}`)
        resolve(subscription)
      })
    })
  }
  \<close>
  The function passed to \<open>new Promise\<close> runs before \<open>subscribe\<close> returns, and an
  exception thrown in it rejects the promise. \<open>asteroid\<close> is the transport handle at the
  time of the call: \<open>None\<close> while it is not initialised (before \<open>connect\<close>), otherwise
  what \<open>asteroid.subscribe(topic, roomId, true)\<close> does: it throws, or it returns a
  subscription object, which has a \<open>ready\<close> promise or has none. The settlement of the
  \<open>ready\<close> promise is that of this call in the trace.
\<close>

datatype subscribe_answer = Throws js_error | Returns subscription bool

text \<open>
  \<open>subscribe_executor\<close> is that function, up to the registration of the handler on
  \<open>subscription.ready\<close>: \<open>Inl\<close> is the exception it throws, \<open>Inr\<close> the subscription
  whose readiness it waits for.
\<close>

definition subscribe_executor ::
  "subscribe_answer option \<Rightarrow> string \<Rightarrow> string \<Rightarrow> 'a driver_scheme
     \<Rightarrow> (js_error + subscription) \<times> 'a driver_scheme" where
  "subscribe_executor asteroid topic roomId st =
     (let st1 = logger (Info (''[subscribe] Preparing subscription: '' @ topic @ '': '' @ roomId)) st
      in (case asteroid of
            None \<Rightarrow> (Inl (TypeError ''Cannot read property subscribe of undefined''), st1)
          | Some answer \<Rightarrow>
              (let st2 = transport (Subscribe topic roomId True) st1
               in (case answer of
                     Throws err \<Rightarrow> (Inl err, st2)
                   | Returns subscription has_ready \<Rightarrow>
                       (let st3 = st2\<lparr>subscriptions := subscriptions st2 @ [subscription]\<rparr>
                        in if has_ready then (Inr subscription, st3)
                           else (Inl (TypeError ''Cannot read property then of undefined''), st3))))))"

definition subscribe ::
  "(nat \<Rightarrow> jsval settle) \<Rightarrow> subscribe_answer option \<Rightarrow> string \<Rightarrow> string \<Rightarrow> 'a driver_scheme
     \<Rightarrow> subscription settle \<times> 'a driver_scheme" where
  "subscribe settles asteroid topic roomId st =
     (let ready = settles (length (trace st));
          r = subscribe_executor asteroid topic roomId st
      in (case fst r of
            Inl err \<Rightarrow> (Rejected err, snd r)
          | Inr subscription \<Rightarrow>
              (case ready of
                 Resolved sid \<Rightarrow>
                   (Resolved subscription,
                    logger (InfoV ''[subscribe] Stream ready: '' sid) (snd r))
               | _ \<Rightarrow> (Pending, snd r))))"

section \<open>Connecting\<close>

text \<open>
  The state of one call of \<open>connect\<close>, beside the module state: whether the rejection
  timer is still set, whether the listener of \<open>events.once('connected', ...)\<close> is still
  registered, the promise \<open>connect\<close> returned, the calls of the callback (the error
  argument of each: \<open>None\<close> for null) and the events emitted on \<open>events\<close>.
  \<open>config_timeout\<close> is \<open>config.timeout\<close>, in milliseconds (20000 by default).
\<close>

record connecting = driver +
  config_timeout :: nat
  timer :: bool
  once_connected :: bool
  promise :: "unit settle"
  callback_calls :: "js_error option list"
  emitted :: "string list"

text \<open>\<open>resolve\<close> and \<open>reject\<close> of a promise: only the first of them settles it.\<close>

definition resolve :: "'a \<Rightarrow> 'a settle \<Rightarrow> 'a settle" where
  "resolve v p = (case p of Pending \<Rightarrow> Resolved v | _ \<Rightarrow> p)"

definition reject :: "js_error \<Rightarrow> 'a settle \<Rightarrow> 'a settle" where
  "reject err p = (case p of Pending \<Rightarrow> Rejected err | _ \<Rightarrow> p)"

definition timeout_error :: js_error where
  "timeout_error = Error ''Asteroid connection timeout''"

text \<open>
  \<^verbatim>\<open>
  export function connect (options: IOptions = {}, callback?: ICallback): any {
    return new Promise((resolve, reject) => {
      const config = Object.assign({}, defaults, options)
      config.host = config.host!.replace(/(^\w+:|^)\/\//, '')
      logger.info('[connect] Connecting', config)
      asteroid = new Asteroid(config.host, config.useSsl)
      setupMethodCache(asteroid) // init instance for later caching method calls
      asteroid.on('connected', () => events.emit('connected'))
      asteroid.on('reconnected', () => events.emit('reconnected'))
      const rejectionTimeout = setTimeout(function () { ... }, config.timeout)
      events.once('connected', () => { ... })
    })
  }
  \<close>
  \<open>connect\<close> is the executor: what has happened when \<open>connect\<close> returns. The host and the
  TLS flag only reach the constructor of the transport and are left out; \<open>timeout\<close> is
  \<open>config.timeout\<close> and \<open>callback\<close> says whether a callback was passed.
\<close>

definition connect :: "cache_env \<Rightarrow> nat \<Rightarrow> bool \<Rightarrow> driver \<Rightarrow> connecting" where
  "connect env timeout callback st =
     (let st1 = setupMethodCache env (logger (Info ''[connect] Connecting'') st)
      in \<lparr>subscriptions = subscriptions st1, trace = trace st1, log = log st1,
          buckets = buckets st1,
          config_timeout = timeout, timer = True, once_connected = True, promise = Pending,
          callback_calls = [], emitted = []\<rparr>)"

text \<open>
  What can happen after \<open>connect\<close> has returned: the transport emits \<open>connected\<close> or
  \<open>reconnected\<close>, or the time of the rejection timer has passed.
\<close>

datatype connect_event = TransportConnected | TransportReconnected | TimeoutElapsed

text \<open>
  \<^verbatim>\<open>
    const rejectionTimeout = setTimeout(function () {
      logger.info(`[connect] Timeout (${config.timeout})`)
      const err = new Error('Asteroid connection timeout')
      callback ? callback(err, asteroid) : reject(err)
    }, config.timeout)
  \<close>
  A timer that was cleared, or has fired, does not fire.
\<close>

definition on_timeout :: "bool \<Rightarrow> connecting \<Rightarrow> connecting" where
  "on_timeout callback c =
     (if \<not> timer c then c
      else (let c1 = logger (InfoV ''[connect] Timeout '' (JNum (int (config_timeout c)))) (c\<lparr>timer := False\<rparr>)
            in if callback then c1\<lparr>callback_calls := callback_calls c1 @ [Some timeout_error]\<rparr>
               else c1\<lparr>promise := reject timeout_error (promise c1)\<rparr>))"

text \<open>
  \<^verbatim>\<open>
    asteroid.on('connected', () => events.emit('connected'))
    events.once('connected', () => {
      logger.info('[connect] Connected')
      clearTimeout(rejectionTimeout)
      if (callback) callback(null, asteroid)
      resolve(asteroid)
    })
  \<close>
  The listener of \<open>once\<close> is removed when it has run.
\<close>

definition on_connected :: "bool \<Rightarrow> connecting \<Rightarrow> connecting" where
  "on_connected callback c =
     (let c1 = c\<lparr>emitted := emitted c @ [''connected'']\<rparr>
      in if \<not> once_connected c1 then c1
         else (let c2 = logger (Info ''[connect] Connected'') (c1\<lparr>once_connected := False\<rparr>);
                   c3 = c2\<lparr>timer := False\<rparr>;
                   c4 = (if callback then c3\<lparr>callback_calls := callback_calls c3 @ [None]\<rparr> else c3)
               in c4\<lparr>promise := resolve () (promise c4)\<rparr>))"

text \<open>\<open>asteroid.on('reconnected', () => events.emit('reconnected'))\<close>\<close>

definition on_reconnected :: "connecting \<Rightarrow> connecting" where
  "on_reconnected c = c\<lparr>emitted := emitted c @ [''reconnected'']\<rparr>"

fun connect_step :: "bool \<Rightarrow> connecting \<Rightarrow> connect_event \<Rightarrow> connecting" where
  "connect_step callback c TransportConnected = on_connected callback c"
| "connect_step callback c TransportReconnected = on_reconnected c"
| "connect_step callback c TimeoutElapsed = on_timeout callback c"

text \<open>The state after \<open>connect\<close> and the events that followed it, in order.\<close>

definition connect_run ::
  "cache_env \<Rightarrow> nat \<Rightarrow> bool \<Rightarrow> driver \<Rightarrow> connect_event list \<Rightarrow> connecting" where
  "connect_run env timeout callback st evs =
     foldl (connect_step callback) (connect env timeout callback st) evs"

section \<open>Reacting to messages\<close>

text \<open>
  Reading a property of a value: a \<open>TypeError\<close> on null and undefined, the own property
  of an object, \<open>undefined\<close> where there is none. \<open>get_prop\<close> reads a named property
  (only \<open>args\<close> and \<open>rid\<close> are read here, which arrays and primitive values do not
  have), \<open>get_index\<close> reads \<open>v[i]\<close>.
\<close>

fun get_prop :: "jsval \<Rightarrow> string \<Rightarrow> js_error + jsval" where
  "get_prop JUndefined name = Inl (TypeError (''Cannot read property '' @ name @ '' of undefined''))"
| "get_prop JNull name = Inl (TypeError (''Cannot read property '' @ name @ '' of null''))"
| "get_prop (JObj fs) name = Inr (case map_of fs name of Some v \<Rightarrow> v | None \<Rightarrow> JUndefined)"
| "get_prop v name = Inr JUndefined"

fun index_name :: "nat \<Rightarrow> string" where
  "index_name n =
     (if n < 10 then [char_of (48 + n)]
      else index_name (n div 10) @ [char_of (48 + n mod 10)])"

declare index_name.simps [simp del]

fun get_index :: "jsval \<Rightarrow> nat \<Rightarrow> js_error + jsval" where
  "get_index (JArr xs) i = Inr (if i < length xs then xs ! i else JUndefined)"
| "get_index (JStr s) i = Inr (if i < length s then JStr [s ! i] else JUndefined)"
| "get_index v i = get_prop v (index_name i)"

definition and_then :: "'e + 'a \<Rightarrow> ('a \<Rightarrow> 'e + 'b) \<Rightarrow> 'e + 'b" where
  "and_then r f = (case r of Inl e \<Rightarrow> Inl e | Inr v \<Rightarrow> f v)"

text \<open>
  A call of the callback: its first argument (\<open>None\<close> for null) and the arguments after
  it. What the listener wrote with \<open>console.log\<close> is kept beside the calls.
\<close>

datatype cb_call = CbCall (cb_err: "js_error option") (cb_rest: "jsval list")

record listener =
  console :: "(string \<times> jsval) list"
  cb_calls :: "cb_call list"

text \<open>
  \<^verbatim>\<open>
  messages.reactiveQuery({}).on('change', (_id: string) => {
    const changedMessageQuery = messages.reactiveQuery({ _id })
    if (changedMessageQuery.result && changedMessageQuery.result.length > 0) {
      const changedMessage = changedMessageQuery.result[0]
      if (changedMessage.args !== null) {
        console.log(`[received] Message in room ${ changedMessage.args[0].rid }`)
        callback(null, changedMessage.args[0], changedMessage.args[1])
      } else {
        callback(new Error('Received message without args'))
      }
    } else {
      callback(new Error(`[change] Reactive query at ID ${ _id } without results`))
    }
  })
  \<close>
  The listener of \<open>reactToMessages\<close>. \<open>query changed_id\<close> is the \<open>result\<close> of the
  reactive query by that id: an array of records, or \<open>None\<close> for undefined. \<open>Inl\<close> is
  an exception thrown out of the listener.
\<close>

definition reactToMessages_change ::
  "(string \<Rightarrow> jsval list option) \<Rightarrow> string \<Rightarrow> listener \<Rightarrow> js_error + listener" where
  "reactToMessages_change query changed_id l =
     (case query changed_id of
        Some (changedMessage # others) \<Rightarrow>
          and_then (get_prop changedMessage ''args'') (\<lambda>args.
            if args \<noteq> JNull then
              and_then (get_index args 0) (\<lambda>a0.
              and_then (get_prop a0 ''rid'') (\<lambda>rid.
              and_then (get_index args 1) (\<lambda>a1.
                Inr (l\<lparr>console := console l @ [(''[received] Message in room '', rid)],
                       cb_calls := cb_calls l @ [CbCall None [a0, a1]]\<rparr>))))
            else
              Inr (l\<lparr>cb_calls := cb_calls l @
                     [CbCall (Some (Error ''Received message without args'')) []]\<rparr>))
      | _ \<Rightarrow>
          Inr (l\<lparr>cb_calls := cb_calls l @
                 [CbCall (Some (Error (''[change] Reactive query at ID '' @ changed_id
                                         @ '' without results''))) []]\<rparr>))"

section \<open>Preparing and sending messages\<close>

text \<open>
  The class \<open>Message\<close> (src/lib/message.ts) is not among the sources: its constructor
  \<open>newMessage\<close> and its method \<open>setRoomId\<close> are parameters, over any type \<open>'m\<close> of
  messages.
  \<^verbatim>\<open>
  export function prepareMessage (content: string | IMessage, roomId?: string): Message {
    const message = new Message(content)
    if (roomId) message.setRoomId(roomId)
    return message
  }
  \<close>
  \<open>roomId\<close> is \<open>None\<close> when the argument is left out.
\<close>

definition prepareMessage ::
  "(jsval \<Rightarrow> 'm) \<Rightarrow> (string \<Rightarrow> 'm \<Rightarrow> 'm) \<Rightarrow> jsval \<Rightarrow> string option \<Rightarrow> 'm" where
  "prepareMessage newMessage setRoomId content roomId =
     (let message = newMessage content
      in (case roomId of
            None \<Rightarrow> message
          | Some r \<Rightarrow> if r \<noteq> [] then setRoomId r message else message))"

text \<open>
  \<^verbatim>\<open>
  export function sendMessageByRoomId (content: string | string[] | IMessage, roomId: string): Promise<any> {
    let messages: Message[] = []
    if (Array.isArray(content)) {
      content.forEach((text) => messages.push(prepareMessage(text, roomId)))
    } else {
      messages.push(prepareMessage(content))
    }
    return Promise.all(messages.map((message) => sendMessage(message)))
  }
  \<close>
  \<open>sendMessageByRoomId_messages\<close> is the array \<open>messages\<close> when the sending starts.
\<close>

definition sendMessageByRoomId_messages ::
  "(jsval \<Rightarrow> 'm) \<Rightarrow> (string \<Rightarrow> 'm \<Rightarrow> 'm) \<Rightarrow> jsval \<Rightarrow> string \<Rightarrow> 'm list" where
  "sendMessageByRoomId_messages newMessage setRoomId content roomId =
     (case content of
        JArr texts \<Rightarrow> map (\<lambda>text. prepareMessage newMessage setRoomId text (Some roomId)) texts
      | _ \<Rightarrow> [prepareMessage newMessage setRoomId content None])"

text \<open>
  \<open>sendMessage(message)\<close> without a room id is \<open>asyncCall('sendMessage', message)\<close>;
  \<open>toJs\<close> is the message as the value handed to the transport. The result holds the
  settlements of the single sends, which \<open>Promise.all\<close> collects.
\<close>

fun sendMessages ::
  "(nat \<Rightarrow> jsval settle) \<Rightarrow> ('m \<Rightarrow> jsval) \<Rightarrow> 'm list \<Rightarrow> 'a driver_scheme
     \<Rightarrow> jsval settle list \<times> 'a driver_scheme" where
  "sendMessages settles toJs [] st = ([], st)"
| "sendMessages settles toJs (m # ms) st =
     (let r = asyncCall settles ''sendMessage'' (toJs m) st;
          rs = sendMessages settles toJs ms (snd r)
      in (fst r # fst rs, snd rs))"

definition sendMessageByRoomId ::
  "(jsval \<Rightarrow> 'm) \<Rightarrow> (string \<Rightarrow> 'm \<Rightarrow> 'm) \<Rightarrow> ('m \<Rightarrow> jsval) \<Rightarrow> (nat \<Rightarrow> jsval settle)
     \<Rightarrow> jsval \<Rightarrow> string \<Rightarrow> 'a driver_scheme \<Rightarrow> jsval settle list \<times> 'a driver_scheme" where
  "sendMessageByRoomId newMessage setRoomId toJs settles content roomId st =
     sendMessages settles toJs
       (sendMessageByRoomId_messages newMessage setRoomId content roomId) st"

section \<open>Starting states\<close>

text \<open>
  The module state when the module is loaded (\<open>export let subscriptions = []\<close>, no
  bucket registered), and the state once \<open>setupMethodCache\<close> has run with the default
  environment, as it does in \<open>connect\<close>.
\<close>

definition initial :: driver where
  "initial = \<lparr>subscriptions = [], trace = [], log = [], buckets = Map.empty\<rparr>"

definition after_setup :: driver where
  "after_setup = setupMethodCache default_env initial"

text \<open>The elements at the positions 0, 2, 4, ... of a list, and those at 1, 3, 5, ...\<close>

fun evens :: "'a list \<Rightarrow> 'a list" where
  "evens [] = []"
| "evens [x] = [x]"
| "evens (x # y # zs) = x # evens zs"

fun odds :: "'a list \<Rightarrow> 'a list" where
  "odds [] = []"
| "odds [x] = []"
| "odds (x # y # zs) = y # odds zs"

section \<open>Properties of the subscriptions\<close>

lemma indexOf_nth: "distinct xs \<Longrightarrow> k < length xs \<Longrightarrow> indexOf xs (xs ! k) = Some k"
proof (induction xs arbitrary: k)
  case Nil
  then show ?case by simp
next
  case (Cons a xs)
  then show ?case by (cases k) auto
qed

lemma unsubscribe_nth:
  "distinct (subscriptions st) \<Longrightarrow> k < length (subscriptions st) \<Longrightarrow>
   subscriptions (unsubscribe (subscriptions st ! k) st) = splice1 (subscriptions st) k \<and>
   trace (unsubscribe (subscriptions st ! k) st) = trace st @ [Stop (subscriptions st ! k)]"
  by (simp add: unsubscribe_def indexOf_nth logger_def transport_def)

lemma stopped_append: "stopped (xs @ ys) = stopped xs @ stopped ys"
  by (induction xs rule: stopped.induct) auto

lemma arrayMap_unsubscribe_distinct:
  "distinct (subscriptions st) \<Longrightarrow> length (subscriptions st) \<le> k + n \<Longrightarrow>
   subscriptions (arrayMap_unsubscribe n k st)
     = take k (subscriptions st) @ odds (drop k (subscriptions st)) \<and>
   stopped (trace (arrayMap_unsubscribe n k st))
     = stopped (trace st) @ evens (drop k (subscriptions st))"
proof (induction n arbitrary: k st)
  case 0
  then show ?case by simp
next
  case (Suc n)
  show ?case
  proof (cases "k < length (subscriptions st)")
    case False
    have "length (subscriptions st) \<le> Suc k + n" using Suc.prems(2) by simp
    from Suc.IH[OF Suc.prems(1) this] False show ?thesis by simp
  next
    case True
    let ?ys = "subscriptions st"
    let ?st = "unsubscribe (?ys ! k) st"
    let ?rest = "drop (Suc k) ?ys"
    have s: "subscriptions ?st = take k ?ys @ ?rest"
      and t: "trace ?st = trace st @ [Stop (?ys ! k)]"
      using unsubscribe_nth[OF Suc.prems(1) True] by (auto simp: splice1_def)
    have dk: "drop k ?ys = ?ys ! k # ?rest"
      using True by (simp add: Cons_nth_drop_Suc)
    have "distinct (take k ?ys @ drop k ?ys)" using Suc.prems(1) by simp
    then have d: "distinct (subscriptions ?st)" unfolding s dk by auto
    have l: "length (subscriptions ?st) \<le> Suc k + n"
      using Suc.prems(2) True unfolding s by simp
    have lk: "length (take k ?ys) = k" using True by simp
    note ih = Suc.IH[OF d l]
    show ?thesis
    proof (cases ?rest)
      case Nil
      with ih True s t dk lk show ?thesis by (simp add: stopped_append)
    next
      case (Cons y zs)
      have tk: "take (Suc k) (take k ?ys @ y # zs) = take k ?ys @ [y]"
        using lk by (simp add: take_Suc_conv_app_nth nth_append)
      have dr: "drop (Suc k) (take k ?ys @ y # zs) = zs"
        using lk by simp
      from ih True s t dk Cons tk dr show ?thesis by (simp add: stopped_append)
    qed
  qed
qed

text \<open>
  When no subscription is held twice, \<open>unsubscribeAll\<close> stops the subscriptions at the
  positions 0, 2, 4, ... of the array and leaves those at the positions 1, 3, 5, ... in
  it: each \<open>splice\<close> moves the next element under the index that \<open>map\<close> has just left.
\<close>

theorem unsubscribeAll_distinct:
  "distinct (subscriptions st) \<Longrightarrow>
   subscriptions (unsubscribeAll st) = odds (subscriptions st) \<and>
   stopped (trace (unsubscribeAll st)) = stopped (trace st) @ evens (subscriptions st)"
  using arrayMap_unsubscribe_distinct[of st 0 "length (subscriptions st)"]
  by (simp add: unsubscribeAll_def)

theorem unsubscribeAll_distinct_witness:
  "distinct [Subscription 1 ''a'', Subscription 2 ''b'', Subscription 3 ''c''] \<and>
   subscriptions (unsubscribeAll (initial\<lparr>subscriptions :=
       [Subscription 1 ''a'', Subscription 2 ''b'', Subscription 3 ''c'']\<rparr>))
     = [Subscription 2 ''b''] \<and>
   stopped (trace (unsubscribeAll (initial\<lparr>subscriptions :=
       [Subscription 1 ''a'', Subscription 2 ''b'', Subscription 3 ''c'']\<rparr>)))
     = [Subscription 1 ''a'', Subscription 3 ''c'']"
  using unsubscribeAll_distinct[of "initial\<lparr>subscriptions :=
       [Subscription 1 ''a'', Subscription 2 ''b'', Subscription 3 ''c'']\<rparr>"]
  by (simp add: initial_def)

text \<open>
  C2 (code defect), evaluated at two active subscriptions: \<open>unsubscribeAll\<close> calls
  \<open>stop\<close> on the first one only, and the second one is still in the active set
  afterwards. The claim asks for an empty set and one \<open>stop\<close> for each.
\<close>

theorem unsubscribeAll_two_leaves_one:
  "subscriptions (unsubscribeAll (initial\<lparr>subscriptions :=
       [Subscription 1 ''a'', Subscription 2 ''b'']\<rparr>)) = [Subscription 2 ''b''] \<and>
   stopped (trace (unsubscribeAll (initial\<lparr>subscriptions :=
       [Subscription 1 ''a'', Subscription 2 ''b'']\<rparr>))) = [Subscription 1 ''a'']"
  by (simp add: initial_def unsubscribeAll_def unsubscribe_def splice1_def logger_def
      transport_def)

text \<open>
  C6 (code defect), evaluated at two active subscriptions and a logout that succeeds:
  \<open>disconnect\<close> unsubscribes before it logs out and resolves, but the second subscription
  was never stopped and is still in the active set. It is the defect of C2, reached
  through \<open>unsubscribeAll\<close>.
\<close>

theorem disconnect_two_leaves_one:
  "fst (disconnect (\<lambda>p. Resolved JNull) (initial\<lparr>subscriptions :=
       [Subscription 1 ''a'', Subscription 2 ''b'']\<rparr>)) = Resolved JUndefined \<and>
   subscriptions (snd (disconnect (\<lambda>p. Resolved JNull) (initial\<lparr>subscriptions :=
       [Subscription 1 ''a'', Subscription 2 ''b'']\<rparr>))) = [Subscription 2 ''b''] \<and>
   trace (snd (disconnect (\<lambda>p. Resolved JNull) (initial\<lparr>subscriptions :=
       [Subscription 1 ''a'', Subscription 2 ''b'']\<rparr>)))
     = [Stop (Subscription 1 ''a''), Logout]"
  by (simp add: disconnect_def logout_def initial_def unsubscribeAll_def unsubscribe_def
      splice1_def logger_def transport_def Let_def)

text \<open>
  C9, as amended. The promise returned by \<open>subscribe\<close> rejects exactly when the function
  passed to \<open>new Promise\<close> throws, and then with the error thrown; that function runs
  through exactly when \<open>asteroid\<close> is initialised and \<open>asteroid.subscribe\<close> returns a
  subscription with its \<open>ready\<close> promise. In that case the promise never rejects: the
  subscription is appended to the active set before \<open>subscribe\<close> returns, whatever
  becomes of the readiness promise; and if the readiness promise rejects, the returned
  promise stays pending for ever and the subscription is still in the active set.
\<close>

theorem subscribe_rejects_only_on_throw:
  "(fst (subscribe settles asteroid topic roomId st) = Rejected err)
     = (fst (subscribe_executor asteroid topic roomId st) = Inl err) \<and>
   (fst (subscribe_executor asteroid topic roomId st) = Inr subscription) 
     = (asteroid = Some (Returns subscription True)) \<and>
   (fst (subscribe_executor asteroid topic roomId st) = Inr subscription \<longrightarrow>
      subscriptions (snd (subscribe_executor asteroid topic roomId st))
        = subscriptions st @ [subscription] \<and>
      subscriptions (snd (subscribe settles asteroid topic roomId st))
        = subscriptions st @ [subscription] \<and>
      (settles (length (trace st)) = Rejected e \<longrightarrow>
         fst (subscribe settles asteroid topic roomId st) = Pending \<and>
         subscription \<in> set (subscriptions (snd (subscribe settles asteroid topic roomId st)))))"
  by (auto simp: subscribe_def subscribe_executor_def logger_def transport_def Let_def
      split: settle.splits option.splits subscribe_answer.splits sum.splits if_splits)

theorem subscribe_rejects_only_on_throw_witness:
  "fst (subscribe_executor (Some (Returns (Subscription 7 ''s7'') True)) ''stream-room-messages''
         ''__my_messages__'' after_setup) = Inr (Subscription 7 ''s7'') \<and>
   fst (subscribe (\<lambda>p. Rejected (Error ''nosub'')) (Some (Returns (Subscription 7 ''s7'') True))
         ''stream-room-messages'' ''__my_messages__'' after_setup) = Pending \<and>
   subscriptions (snd (subscribe (\<lambda>p. Rejected (Error ''nosub''))
         (Some (Returns (Subscription 7 ''s7'') True))
         ''stream-room-messages'' ''__my_messages__'' after_setup)) = [Subscription 7 ''s7'']"
proof -
  have s: "subscriptions after_setup = []" "trace after_setup = []"
    by (simp_all add: after_setup_def setupMethodCache_def methodCache_create_def initial_def)
  show ?thesis
    using subscribe_rejects_only_on_throw[of "\<lambda>p. Rejected (Error ''nosub'')"
      "Some (Returns (Subscription 7 ''s7'') True)" "''stream-room-messages''"
      "''__my_messages__''" after_setup "Error ''nosub''" "Subscription 7 ''s7''" "Error ''nosub''"] s
    by simp
qed

text \<open>
  C9 as stated fails: when the module is loaded and \<open>connect\<close> has not run, \<open>asteroid\<close>
  is undefined; \<open>subscribe\<close> throws inside the function passed to \<open>new Promise\<close>, the
  returned promise rejects with the \<open>TypeError\<close>, and nothing is appended. The promise
  rejects as well when \<open>asteroid.subscribe\<close> throws, and when the object it returns has
  no \<open>ready\<close> promise (that object has been appended by then).
\<close>

theorem subscribe_before_connect_rejects:
  "fst (subscribe (\<lambda>p. Pending) None ''stream-room-messages'' ''__my_messages__'' initial)
     = Rejected (TypeError ''Cannot read property subscribe of undefined'') \<and>
   subscriptions (snd (subscribe (\<lambda>p. Pending) None ''stream-room-messages''
      ''__my_messages__'' initial)) = [] \<and>
   fst (subscribe (\<lambda>p. Pending) (Some (Throws (Error ''not connected'')))
      ''stream-room-messages'' ''__my_messages__'' initial)
     = Rejected (Error ''not connected'') \<and>
   subscriptions (snd (subscribe (\<lambda>p. Pending) (Some (Throws (Error ''not connected'')))
      ''stream-room-messages'' ''__my_messages__'' initial)) = [] \<and>
   fst (subscribe (\<lambda>p. Pending) (Some (Returns (Subscription 7 ''s7'') False))
      ''stream-room-messages'' ''__my_messages__'' initial)
     = Rejected (TypeError ''Cannot read property then of undefined'') \<and>
   subscriptions (snd (subscribe (\<lambda>p. Pending) (Some (Returns (Subscription 7 ''s7'') False))
      ''stream-room-messages'' ''__my_messages__'' initial)) = [Subscription 7 ''s7'']"
  by (simp add: subscribe_def subscribe_executor_def logger_def transport_def initial_def Let_def)

section \<open>Properties of connect\<close>

lemmas connect_step_defs =
  on_timeout_def on_connected_def on_reconnected_def logger_def resolve_def reject_def Let_def

lemma connect_fields:
  "timer (connect env t cb st)" "once_connected (connect env t cb st)"
  "promise (connect env t cb st) = Pending" "callback_calls (connect env t cb st) = []"
  "emitted (connect env t cb st) = []"
  by (simp_all add: connect_def Let_def)

lemma no_callback_step: "callback_calls (connect_step False c ev) = callback_calls c"
  by (cases ev) (simp_all add: connect_step_defs)

lemma no_callback_run:
  "callback_calls (foldl (connect_step False) c evs) = callback_calls c"
  by (induction evs arbitrary: c) (simp_all add: no_callback_step)

lemma callback_step_not_rejected:
  "promise c \<noteq> Rejected err \<Longrightarrow> promise (connect_step True c ev) \<noteq> Rejected err"
  by (cases ev) (auto simp: connect_step_defs split: settle.splits)

lemma callback_run_not_rejected:
  "promise c \<noteq> Rejected err \<Longrightarrow> promise (foldl (connect_step True) c evs) \<noteq> Rejected err"
  by (induction evs arbitrary: c) (simp_all add: callback_step_not_rejected)

lemma both_step:
  "promise c = Resolved () \<Longrightarrow> None \<in> set (callback_calls c) \<Longrightarrow> \<not> once_connected c \<Longrightarrow>
   promise (connect_step True c ev) = Resolved () \<and>
   None \<in> set (callback_calls (connect_step True c ev)) \<and>
   \<not> once_connected (connect_step True c ev)"
  by (cases ev) (simp_all add: connect_step_defs)

lemma both_run:
  "promise c = Resolved () \<Longrightarrow> None \<in> set (callback_calls c) \<Longrightarrow> \<not> once_connected c \<Longrightarrow>
   promise (foldl (connect_step True) c evs) = Resolved () \<and>
   None \<in> set (callback_calls (foldl (connect_step True) c evs))"
proof (induction evs arbitrary: c)
  case Nil
  then show ?case by simp
next
  case (Cons ev evs)
  from both_step[OF Cons.prems, of ev] Cons.IH[of "connect_step True c ev"]
  show ?case by simp
qed

lemma waiting_run:
  "once_connected c \<Longrightarrow> promise c = Pending \<Longrightarrow> TransportConnected \<in> set evs \<Longrightarrow>
   promise (foldl (connect_step True) c evs) = Resolved () \<and>
   None \<in> set (callback_calls (foldl (connect_step True) c evs))"
proof (induction evs arbitrary: c)
  case Nil
  then show ?case by simp
next
  case (Cons ev evs)
  show ?case
  proof (cases ev)
    case TransportConnected
    have "promise (connect_step True c ev) = Resolved ()"
      "None \<in> set (callback_calls (connect_step True c ev))"
      "\<not> once_connected (connect_step True c ev)"
      using Cons.prems(1,2) TransportConnected by (simp_all add: connect_step_defs)
    from both_run[OF this] show ?thesis by simp
  next
    case TransportReconnected
    then have "once_connected (connect_step True c ev)" "promise (connect_step True c ev) = Pending"
      "TransportConnected \<in> set evs"
      using Cons.prems by (simp_all add: connect_step_defs)
    from Cons.IH[OF this] show ?thesis by simp
  next
    case TimeoutElapsed
    then have "once_connected (connect_step True c ev)" "promise (connect_step True c ev) = Pending"
      "TransportConnected \<in> set evs"
      using Cons.prems by (simp_all add: connect_step_defs)
    from Cons.IH[OF this] show ?thesis by simp
  qed
qed

text \<open>
  C4, as amended: the two outcome channels of \<open>connect\<close> are not exclusive. Without a
  callback, only the awaitable is used, whatever happens. With a callback, an error never
  reaches the awaitable: when the time runs out first, the callback alone gets the
  timeout error and the awaitable stays pending. But when the transport connects, the
  awaitable resolves in every case, and a callback that was passed is called with null
  as well: both channels are used.
\<close>

theorem connect_outcome_channels:
  "callback_calls (connect_run env t False st evs) = [] \<and>
   promise (connect_run env t True st evs) \<noteq> Rejected err \<and>
   callback_calls (connect_run env t cb st [TimeoutElapsed])
     = (if cb then [Some timeout_error] else []) \<and>
   promise (connect_run env t cb st [TimeoutElapsed])
     = (if cb then Pending else Rejected timeout_error) \<and>
   callback_calls (connect_run env t cb st [TransportConnected]) = (if cb then [None] else []) \<and>
   promise (connect_run env t cb st [TransportConnected]) = Resolved () \<and>
   (TransportConnected \<in> set evs \<longrightarrow>
      promise (connect_run env t True st evs) = Resolved () \<and>
      None \<in> set (callback_calls (connect_run env t True st evs)))"
proof -
  have a: "callback_calls (connect_run env t False st evs) = []"
    by (simp add: connect_run_def no_callback_run connect_fields)
  have b: "promise (connect_run env t True st evs) \<noteq> Rejected err"
    unfolding connect_run_def by (rule callback_run_not_rejected) (simp add: connect_fields)
  have c: "callback_calls (connect_run env t cb st [TimeoutElapsed])
             = (if cb then [Some timeout_error] else [])"
    "promise (connect_run env t cb st [TimeoutElapsed])
             = (if cb then Pending else Rejected timeout_error)"
    by (simp_all add: connect_run_def connect_fields connect_step_defs)
  have d: "callback_calls (connect_run env t cb st [TransportConnected])
             = (if cb then [None] else [])"
    "promise (connect_run env t cb st [TransportConnected]) = Resolved ()"
    by (simp_all add: connect_run_def connect_fields connect_step_defs)
  have e: "TransportConnected \<in> set evs \<longrightarrow>
      promise (connect_run env t True st evs) = Resolved () \<and>
      None \<in> set (callback_calls (connect_run env t True st evs))"
    unfolding connect_run_def using waiting_run[of "connect env t True st" evs]
    by (simp add: connect_fields)
  from a b c d e show ?thesis by simp
qed

theorem connect_outcome_channels_witness:
  "TransportConnected \<in> set [TimeoutElapsed, TransportConnected] \<and>
   promise (connect_run default_env 20000 True initial [TimeoutElapsed, TransportConnected])
     = Resolved () \<and>
   None \<in> set (callback_calls
     (connect_run default_env 20000 True initial [TimeoutElapsed, TransportConnected]))"
  using connect_outcome_channels[of default_env 20000 initial
      "[TimeoutElapsed, TransportConnected]" timeout_error True]
  by simp

text \<open>
  C4 as stated fails: with a callback and a transport that connects, the callback is
  called and the awaitable resolves.
\<close>

theorem connect_callback_and_awaitable:
  "callback_calls (connect_run default_env 20000 True initial [TransportConnected]) = [None] \<and>
   promise (connect_run default_env 20000 True initial [TransportConnected]) = Resolved ()"
  by (simp add: connect_run_def connect_fields connect_step_defs)

lemma quiet_step:
  "ev \<noteq> TransportConnected \<Longrightarrow>
   ''connected'' \<notin> set (emitted c) \<Longrightarrow>
   (if timer c then promise c = Pending \<and> callback_calls c = []
    else promise c = (if cb then Pending else Rejected timeout_error) \<and>
         callback_calls c = (if cb then [Some timeout_error] else [])) \<Longrightarrow>
   ''connected'' \<notin> set (emitted (connect_step cb c ev)) \<and>
   (if timer (connect_step cb c ev)
    then promise (connect_step cb c ev) = Pending \<and> callback_calls (connect_step cb c ev) = []
    else promise (connect_step cb c ev) = (if cb then Pending else Rejected timeout_error) \<and>
         callback_calls (connect_step cb c ev) = (if cb then [Some timeout_error] else []))"
  by (cases ev) (auto simp: connect_step_defs split: if_splits)

lemma quiet_run:
  "TransportConnected \<notin> set evs \<Longrightarrow>
   ''connected'' \<notin> set (emitted c) \<Longrightarrow>
   (if timer c then promise c = Pending \<and> callback_calls c = []
    else promise c = (if cb then Pending else Rejected timeout_error) \<and>
         callback_calls c = (if cb then [Some timeout_error] else [])) \<Longrightarrow>
   ''connected'' \<notin> set (emitted (foldl (connect_step cb) c evs)) \<and>
   (if timer (foldl (connect_step cb) c evs)
    then promise (foldl (connect_step cb) c evs) = Pending \<and>
         callback_calls (foldl (connect_step cb) c evs) = []
    else promise (foldl (connect_step cb) c evs) = (if cb then Pending else Rejected timeout_error) \<and>
         callback_calls (foldl (connect_step cb) c evs) = (if cb then [Some timeout_error] else []))"
proof (induction evs arbitrary: c)
  case Nil
  then show ?case by simp
next
  case (Cons ev evs)
  have ne: "ev \<noteq> TransportConnected" and rest: "TransportConnected \<notin> set evs"
    using Cons.prems(1) by auto
  from quiet_step[OF ne Cons.prems(2,3)]
  have "''connected'' \<notin> set (emitted (connect_step cb c ev))"
    and "(if timer (connect_step cb c ev)
    then promise (connect_step cb c ev) = Pending \<and> callback_calls (connect_step cb c ev) = []
    else promise (connect_step cb c ev) = (if cb then Pending else Rejected timeout_error) \<and>
         callback_calls (connect_step cb c ev) = (if cb then [Some timeout_error] else []))"
    by blast+
  from Cons.IH[OF rest this] show ?case by simp
qed

lemma timely_step:
  "ev \<noteq> TimeoutElapsed \<Longrightarrow>
   promise c = Pending \<or> promise c = Resolved () \<Longrightarrow>
   once_connected c \<or> (promise c = Resolved () \<and> \<not> timer c) \<Longrightarrow>
   (promise (connect_step cb c ev) = Pending \<or> promise (connect_step cb c ev) = Resolved ()) \<and>
   (once_connected (connect_step cb c ev) \<or>
      (promise (connect_step cb c ev) = Resolved () \<and> \<not> timer (connect_step cb c ev)))"
  by (cases ev) (auto simp: connect_step_defs)

lemma timely_run:
  "TimeoutElapsed \<notin> set evs \<Longrightarrow>
   promise c = Pending \<or> promise c = Resolved () \<Longrightarrow>
   once_connected c \<or> (promise c = Resolved () \<and> \<not> timer c) \<Longrightarrow>
   (promise (foldl (connect_step cb) c evs) = Pending \<or>
      promise (foldl (connect_step cb) c evs) = Resolved ()) \<and>
   (once_connected (foldl (connect_step cb) c evs) \<or>
      (promise (foldl (connect_step cb) c evs) = Resolved () \<and>
       \<not> timer (foldl (connect_step cb) c evs)))"
proof (induction evs arbitrary: c)
  case Nil
  then show ?case by simp
next
  case (Cons ev evs)
  have ne: "ev \<noteq> TimeoutElapsed" and rest: "TimeoutElapsed \<notin> set evs"
    using Cons.prems(1) by auto
  from timely_step[OF ne Cons.prems(2,3), of cb]
  have "promise (connect_step cb c ev) = Pending \<or> promise (connect_step cb c ev) = Resolved ()"
    and "once_connected (connect_step cb c ev) \<or>
      (promise (connect_step cb c ev) = Resolved () \<and> \<not> timer (connect_step cb c ev))"
    by blast+
  from Cons.IH[OF rest this] show ?case by simp
qed

lemma connected_last:
  "promise c = Pending \<or> promise c = Resolved () \<Longrightarrow>
   once_connected c \<or> (promise c = Resolved () \<and> \<not> timer c) \<Longrightarrow>
   \<not> timer (on_connected cb c) \<and>
   on_timeout cb (on_connected cb c) = on_connected cb c \<and>
   ''connected'' \<in> set (emitted (on_connected cb c)) \<and>
   promise (on_connected cb c) = Resolved ()"
  by (auto simp: connect_step_defs)

text \<open>
  C5, as amended. If the transport has not emitted \<open>connected\<close> when the time runs out,
  no \<open>connected\<close> has been emitted on the event stream and the timeout error is
  delivered: the awaitable rejects with it when no callback was passed; when one was
  passed, the callback is called with it and the awaitable stays pending. If the
  transport emits \<open>connected\<close> before the time has run out, the timer is cleared (it
  does nothing afterwards), \<open>connected\<close> is emitted on the event stream and the
  awaitable resolves.
\<close>

theorem connect_timeout_or_connected:
  "(TransportConnected \<notin> set evs \<longrightarrow>
      ''connected'' \<notin> set (emitted (connect_run env t cb st (evs @ [TimeoutElapsed]))) \<and>
      promise (connect_run env t cb st (evs @ [TimeoutElapsed]))
        = (if cb then Pending else Rejected timeout_error) \<and>
      callback_calls (connect_run env t cb st (evs @ [TimeoutElapsed]))
        = (if cb then [Some timeout_error] else [])) \<and>
   (TimeoutElapsed \<notin> set evs \<longrightarrow>
      \<not> timer (connect_run env t cb st (evs @ [TransportConnected])) \<and>
      connect_step cb (connect_run env t cb st (evs @ [TransportConnected])) TimeoutElapsed
        = connect_run env t cb st (evs @ [TransportConnected]) \<and>
      ''connected'' \<in> set (emitted (connect_run env t cb st (evs @ [TransportConnected]))) \<and>
      promise (connect_run env t cb st (evs @ [TransportConnected])) = Resolved ())"
proof (intro conjI impI)
  let ?c = "foldl (connect_step cb) (connect env t cb st) evs"
  assume q: "TransportConnected \<notin> set evs"
  have q': "''connected'' \<notin> set (emitted ?c) \<and>
    (if timer ?c then promise ?c = Pending \<and> callback_calls ?c = []
     else promise ?c = (if cb then Pending else Rejected timeout_error) \<and>
          callback_calls ?c = (if cb then [Some timeout_error] else []))"
    by (rule quiet_run[OF q]) (simp_all add: connect_fields)
  then have q1: "''connected'' \<notin> set (emitted ?c)"
    and q2: "(if timer ?c then promise ?c = Pending \<and> callback_calls ?c = []
     else promise ?c = (if cb then Pending else Rejected timeout_error) \<and>
          callback_calls ?c = (if cb then [Some timeout_error] else []))"
    by blast+
  have ne: "TimeoutElapsed \<noteq> TransportConnected" by simp
  note r = quiet_step[OF ne q1 q2]
  have nt: "\<not> timer (connect_step cb ?c TimeoutElapsed)" by (simp add: connect_step_defs)
  show "''connected'' \<notin> set (emitted (connect_run env t cb st (evs @ [TimeoutElapsed])))"
    using r by (simp add: connect_run_def)
  show "promise (connect_run env t cb st (evs @ [TimeoutElapsed]))
        = (if cb then Pending else Rejected timeout_error)"
    using r nt by (simp add: connect_run_def)
  show "callback_calls (connect_run env t cb st (evs @ [TimeoutElapsed]))
        = (if cb then [Some timeout_error] else [])"
    using r nt by (simp add: connect_run_def)
next
  let ?c = "foldl (connect_step cb) (connect env t cb st) evs"
  assume q: "TimeoutElapsed \<notin> set evs"
  have k: "(promise ?c = Pending \<or> promise ?c = Resolved ()) \<and>
    (once_connected ?c \<or> (promise ?c = Resolved () \<and> \<not> timer ?c))"
    by (rule timely_run[OF q]) (simp_all add: connect_fields)
  then have k1: "promise ?c = Pending \<or> promise ?c = Resolved ()"
    and k2: "once_connected ?c \<or> (promise ?c = Resolved () \<and> \<not> timer ?c)" by blast+
  note l = connected_last[OF k1 k2, of cb]
  show "\<not> timer (connect_run env t cb st (evs @ [TransportConnected]))"
    using l by (simp add: connect_run_def)
  show "connect_step cb (connect_run env t cb st (evs @ [TransportConnected])) TimeoutElapsed
        = connect_run env t cb st (evs @ [TransportConnected])"
    using l by (simp add: connect_run_def)
  show "''connected'' \<in> set (emitted (connect_run env t cb st (evs @ [TransportConnected])))"
    using l by (simp add: connect_run_def)
  show "promise (connect_run env t cb st (evs @ [TransportConnected])) = Resolved ()"
    using l by (simp add: connect_run_def)
qed

theorem connect_timeout_or_connected_witness:
  "TransportConnected \<notin> set [TransportReconnected] \<and>
   ''connected'' \<notin> set (emitted
      (connect_run default_env 50 False initial ([TransportReconnected] @ [TimeoutElapsed]))) \<and>
   promise (connect_run default_env 50 False initial ([TransportReconnected] @ [TimeoutElapsed]))
     = Rejected timeout_error \<and>
   TimeoutElapsed \<notin> set [TransportReconnected] \<and>
   \<not> timer (connect_run default_env 50 False initial
      ([TransportReconnected] @ [TransportConnected])) \<and>
   promise (connect_run default_env 50 False initial
      ([TransportReconnected] @ [TransportConnected])) = Resolved ()"
  using connect_timeout_or_connected[of "[TransportReconnected]" default_env 50 False initial]
  by simp

text \<open>
  C5 as stated fails: when a callback was passed and the time runs out, the awaitable
  does not reject.
\<close>

theorem connect_timeout_with_callback_stays_pending:
  "promise (connect_run default_env 50 True initial [TimeoutElapsed]) = Pending \<and>
   callback_calls (connect_run default_env 50 True initial [TimeoutElapsed])
     = [Some timeout_error]"
  by (simp add: connect_run_def connect_fields connect_step_defs)



section \<open>Properties of the calls\<close>

lemma catch_log_fields:
  "fst (catch_log m r) = fst r" "trace (snd (catch_log m r)) = trace (snd r)"
  "buckets (snd (catch_log m r)) = buckets (snd r)"
  "subscriptions (snd (catch_log m r)) = subscriptions (snd r)"
  by (cases r; cases "fst r"; simp add: catch_log_def logger_def)+

lemma then_log_fields:
  "fst (then_log m r) = fst r" "trace (snd (then_log m r)) = trace (snd r)"
  "buckets (snd (then_log m r)) = buckets (snd r)"
  "subscriptions (snd (then_log m r)) = subscriptions (snd r)"
  by (cases r; cases "fst r"; simp add: then_log_def logger_def)+

lemma after_setup_buckets:
  "buckets after_setup ''getRoomIdByNameOrId''
     = Some \<lparr>capacity = 10, maxAgeMs = 300000, entries = []\<rparr>"
  "buckets after_setup ''joinRoom'' = None"
  "trace after_setup = []"
  by (simp_all add: after_setup_def setupMethodCache_def methodCache_create_def default_env_def
      initial_def)

text \<open>
  C1 (code defect), evaluated in the state \<open>connect\<close> sets up. A bucket is registered
  for \<open>getRoomIdByNameOrId\<close>, and \<open>callMethod\<close> calls it directly: the transport sees
  \<open>apply\<close> and the bucket stays empty. No bucket is registered for \<open>joinRoom\<close>, and
  \<open>callMethod\<close> hands it to \<open>cacheCall\<close>. The two branches of the conditional are the
  wrong way round; the claim, and the comment above \<open>callMethod\<close> (through the cache if
  one is created), ask for the opposite.
\<close>

theorem callMethod_registered_bypasses_cache:
  "methodCache_has ''getRoomIdByNameOrId'' after_setup \<and>
   callMethod settles now ''getRoomIdByNameOrId'' (JStr ''general'') after_setup
     = Some (asyncCall settles ''getRoomIdByNameOrId'' (JStr ''general'') after_setup) \<and>
   map_option (\<lambda>r. trace (snd r))
       (callMethod settles now ''getRoomIdByNameOrId'' (JStr ''general'') after_setup)
     = Some [Apply ''getRoomIdByNameOrId'' [JStr ''general'']] \<and>
   map_option (\<lambda>r. map_option entries (buckets (snd r) ''getRoomIdByNameOrId''))
       (callMethod settles now ''getRoomIdByNameOrId'' (JStr ''general'') after_setup)
     = Some (Some []) \<and>
   \<not> methodCache_has ''joinRoom'' after_setup \<and>
   callMethod settles now ''joinRoom'' (JStr ''GENERAL'') after_setup
     = cacheCall settles now ''joinRoom'' (JStr ''GENERAL'') after_setup"
  by (simp add: callMethod_def methodCache_has_def after_setup_buckets asyncCall_def Let_def
      then_log_fields catch_log_fields logger_def transport_def)

text \<open>
  C8: when the underlying call rejects, \<open>asyncCall\<close> and \<open>cacheCall\<close> log the error and
  reject with that same error. For \<open>asyncCall\<close> the underlying call is the one it makes
  on the transport; for \<open>cacheCall\<close> it is the promise \<open>p\<close> that the method cache returns.
\<close>

theorem remote_rejection_logged_and_rethrown:
  "(settles (length (trace st)) = Rejected err \<longrightarrow>
      fst (asyncCall settles method params st) = Rejected err \<and>
      log (snd (asyncCall settles method params st))
        = log st @ [InfoV (''['' @ method @ ''] Calling (async): '')
                      (JArr (case params of JArr xs \<Rightarrow> xs | _ \<Rightarrow> [params])),
                    Err (''['' @ method @ ''] Error:'') err]) \<and>
   (methodCache_call now method key st = Some (p, st') \<and> settles p = Rejected err \<longrightarrow>
      cacheCall settles now method key st
        = Some (Rejected err, logger (Err (''['' @ method @ ''] Error:'') err) st'))"
  by (simp add: asyncCall_def cacheCall_def catch_log_def then_log_def logger_def
      transport_def Let_def)

theorem remote_rejection_logged_and_rethrown_witness:
  "fst (asyncCall (\<lambda>p. Rejected (Error ''not-allowed'')) ''joinRoom'' (JStr ''GENERAL'') after_setup)
     = Rejected (Error ''not-allowed'') \<and>
   log (snd (asyncCall (\<lambda>p. Rejected (Error ''not-allowed'')) ''joinRoom'' (JStr ''GENERAL'')
          after_setup))
     = [InfoV ''[joinRoom] Calling (async): '' (JArr [JStr ''GENERAL'']),
        Err ''[joinRoom] Error:'' (Error ''not-allowed'')] \<and>
   cacheCall (\<lambda>p. Rejected (Error ''not-found'')) 0 ''getRoomIdByNameOrId'' (JStr ''general'')
       after_setup
     = Some (Rejected (Error ''not-found''),
         logger (Err ''[getRoomIdByNameOrId] Error:'' (Error ''not-found''))
           (methodCache_put 0 ''getRoomIdByNameOrId'' (JStr ''general'') 0
              (transport (Call ''getRoomIdByNameOrId'' (JStr ''general'')) after_setup)))"
proof -
  have l: "log after_setup = []"
    by (simp add: after_setup_def setupMethodCache_def methodCache_create_def initial_def)
  have c: "methodCache_call 0 ''getRoomIdByNameOrId'' (JStr ''general'') after_setup
      = Some (0, methodCache_put 0 ''getRoomIdByNameOrId'' (JStr ''general'') 0
              (transport (Call ''getRoomIdByNameOrId'' (JStr ''general'')) after_setup))"
    by (simp add: methodCache_call_def methodCache_has_def methodCache_get_def
        after_setup_buckets Let_def)
  show ?thesis
    using remote_rejection_logged_and_rethrown[of "\<lambda>p. Rejected (Error ''not-allowed'')"
        after_setup "Error ''not-allowed''" "''joinRoom''" "JStr ''GENERAL''"]
      remote_rejection_logged_and_rethrown[of "\<lambda>p. Rejected (Error ''not-found'')"
        after_setup "Error ''not-found''" "''getRoomIdByNameOrId''" _ 0 "JStr ''general''" 0
        "methodCache_put 0 ''getRoomIdByNameOrId'' (JStr ''general'') 0
              (transport (Call ''getRoomIdByNameOrId'' (JStr ''general'')) after_setup)"]
      l c
    by simp
qed

subsection \<open>The cache\<close>


















section \<open>Properties of the message listener\<close>

lemma get_prop_defined:
  "v \<noteq> JUndefined \<Longrightarrow> v \<noteq> JNull \<Longrightarrow> \<exists>w. get_prop v name = Inr w"
  by (cases v) simp_all

text \<open>
  The records the listener handles: if the \<open>args\<close> of the record found is an array
  whose first element is neither null nor undefined, the callback is called with
  (null, args[0], args[1]); if \<open>args\<close> is null, the callback is called with an error
  and nothing else; if the query yields no record, the callback is called with an error
  whose message holds the id. In the last two cases the listener returns and does not
  throw.
\<close>

theorem reactToMessages_change_callback:
  "(query changed_id = Some (JObj r # others) \<and> map_of r ''args'' = Some (JArr (a0 # rest)) \<and>
      a0 \<noteq> JUndefined \<and> a0 \<noteq> JNull \<longrightarrow>
      (\<exists>rid. get_prop a0 ''rid'' = Inr rid \<and>
         reactToMessages_change query changed_id l
           = Inr (l\<lparr>console := console l @ [(''[received] Message in room '', rid)],
                   cb_calls := cb_calls l @
                     [CbCall None [a0, (case rest of [] \<Rightarrow> JUndefined | a1 # zs \<Rightarrow> a1)]]\<rparr>))) \<and>
   (query changed_id = Some (JObj r # others) \<and> map_of r ''args'' = Some JNull \<longrightarrow>
      reactToMessages_change query changed_id l
        = Inr (l\<lparr>cb_calls := cb_calls l @
                 [CbCall (Some (Error ''Received message without args'')) []]\<rparr>)) \<and>
   (query changed_id = None \<or> query changed_id = Some [] \<longrightarrow>
      reactToMessages_change query changed_id l
        = Inr (l\<lparr>cb_calls := cb_calls l @
                 [CbCall (Some (Error (''[change] Reactive query at ID '' @ changed_id
                                         @ '' without results''))) []]\<rparr>))"
proof (intro conjI impI)
  assume h: "query changed_id = Some (JObj r # others) \<and>
      map_of r ''args'' = Some (JArr (a0 # rest)) \<and> a0 \<noteq> JUndefined \<and> a0 \<noteq> JNull"
  then obtain rid where rid: "get_prop a0 ''rid'' = Inr rid"
    using get_prop_defined[of a0 "''rid''"] by blast
  have "reactToMessages_change query changed_id l
           = Inr (l\<lparr>console := console l @ [(''[received] Message in room '', rid)],
                   cb_calls := cb_calls l @
                     [CbCall None [a0, (case rest of [] \<Rightarrow> JUndefined | a1 # zs \<Rightarrow> a1)]]\<rparr>)"
    using h rid by (cases rest) (simp_all add: reactToMessages_change_def and_then_def)
  with rid show "\<exists>rid. get_prop a0 ''rid'' = Inr rid \<and>
         reactToMessages_change query changed_id l
           = Inr (l\<lparr>console := console l @ [(''[received] Message in room '', rid)],
                   cb_calls := cb_calls l @
                     [CbCall None [a0, (case rest of [] \<Rightarrow> JUndefined | a1 # zs \<Rightarrow> a1)]]\<rparr>)"
    by blast
next
  assume "query changed_id = Some (JObj r # others) \<and> map_of r ''args'' = Some JNull"
  then show "reactToMessages_change query changed_id l
        = Inr (l\<lparr>cb_calls := cb_calls l @
                 [CbCall (Some (Error ''Received message without args'')) []]\<rparr>)"
    by (simp add: reactToMessages_change_def and_then_def)
next
  assume "query changed_id = None \<or> query changed_id = Some []"
  then show "reactToMessages_change query changed_id l
        = Inr (l\<lparr>cb_calls := cb_calls l @
                 [CbCall (Some (Error (''[change] Reactive query at ID '' @ changed_id
                                         @ '' without results''))) []]\<rparr>)"
    by (auto simp: reactToMessages_change_def)
qed

theorem reactToMessages_change_callback_witness:
  "reactToMessages_change
       (\<lambda>i. if i = ''abc'' then Some [JObj [(''args'', JArr [JObj [(''rid'', JStr ''GENERAL'')],
                                                              JObj [(''roomType'', JStr ''c'')]])]]
             else if i = ''nul'' then Some [JObj [(''args'', JNull)]] else None)
       ''abc'' \<lparr>console = [], cb_calls = []\<rparr>
     = Inr \<lparr>console = [(''[received] Message in room '', JStr ''GENERAL'')],
            cb_calls = [CbCall None [JObj [(''rid'', JStr ''GENERAL'')],
                                      JObj [(''roomType'', JStr ''c'')]]]\<rparr> \<and>
   reactToMessages_change
       (\<lambda>i. if i = ''abc'' then Some [JObj [(''args'', JArr [JObj [(''rid'', JStr ''GENERAL'')],
                                                              JObj [(''roomType'', JStr ''c'')]])]]
             else if i = ''nul'' then Some [JObj [(''args'', JNull)]] else None)
       ''nul'' \<lparr>console = [], cb_calls = []\<rparr>
     = Inr \<lparr>console = [],
            cb_calls = [CbCall (Some (Error ''Received message without args'')) []]\<rparr> \<and>
   reactToMessages_change
       (\<lambda>i. if i = ''abc'' then Some [JObj [(''args'', JArr [JObj [(''rid'', JStr ''GENERAL'')],
                                                              JObj [(''roomType'', JStr ''c'')]])]]
             else if i = ''nul'' then Some [JObj [(''args'', JNull)]] else None)
       ''xyz'' \<lparr>console = [], cb_calls = []\<rparr>
     = Inr \<lparr>console = [],
            cb_calls = [CbCall (Some (Error ''[change] Reactive query at ID xyz without results''))
                          []]\<rparr>"
  using reactToMessages_change_callback[of
      "\<lambda>i. if i = ''abc'' then Some [JObj [(''args'', JArr [JObj [(''rid'', JStr ''GENERAL'')],
                                                              JObj [(''roomType'', JStr ''c'')]])]]
             else if i = ''nul'' then Some [JObj [(''args'', JNull)]] else None"
      "''abc''" "[(''args'', JArr [JObj [(''rid'', JStr ''GENERAL'')], JObj [(''roomType'', JStr ''c'')]])]"
      "[]" "JObj [(''rid'', JStr ''GENERAL'')]" "[JObj [(''roomType'', JStr ''c'')]]"
      "\<lparr>console = [], cb_calls = []\<rparr>"]
    reactToMessages_change_callback[of
      "\<lambda>i. if i = ''abc'' then Some [JObj [(''args'', JArr [JObj [(''rid'', JStr ''GENERAL'')],
                                                              JObj [(''roomType'', JStr ''c'')]])]]
             else if i = ''nul'' then Some [JObj [(''args'', JNull)]] else None"
      "''nul''" "[(''args'', JNull)]" "[]" _ _ "\<lparr>console = [], cb_calls = []\<rparr>"]
    reactToMessages_change_callback[of
      "\<lambda>i. if i = ''abc'' then Some [JObj [(''args'', JArr [JObj [(''rid'', JStr ''GENERAL'')],
                                                              JObj [(''roomType'', JStr ''c'')]])]]
             else if i = ''nul'' then Some [JObj [(''args'', JNull)]] else None"
      "''xyz''" _ _ _ _ "\<lparr>console = [], cb_calls = []\<rparr>"]
  by simp

lemma index_name_0: "index_name 0 = ''0''"
  by code_simp

text \<open>
  C7 (code defect), evaluated at three malformed records. The guard \<open>args !== null\<close>
  lets through a record whose \<open>args\<close> is the empty array, a record with no \<open>args\<close> at
  all, and a record whose \<open>args\<close> starts with null; the \<open>console.log\<close> line then
  reads \<open>args[0].rid\<close> and the listener throws a \<open>TypeError\<close> before it reaches the
  callback. The callback is not called, neither with the payload nor with an error, while
  a record whose \<open>args\<close> is null is reported through the callback.
\<close>

theorem reactToMessages_change_malformed_throws:
  "reactToMessages_change (\<lambda>i. Some [JObj [(''args'', JArr [])]]) ''abc''
       \<lparr>console = [], cb_calls = []\<rparr>
     = Inl (TypeError ''Cannot read property rid of undefined'') \<and>
   reactToMessages_change (\<lambda>i. Some [JObj [(''id'', JStr ''abc'')]]) ''abc''
       \<lparr>console = [], cb_calls = []\<rparr>
     = Inl (TypeError ''Cannot read property 0 of undefined'') \<and>
   reactToMessages_change (\<lambda>i. Some [JObj [(''args'', JArr [JNull, JNull])]]) ''abc''
       \<lparr>console = [], cb_calls = []\<rparr>
     = Inl (TypeError ''Cannot read property rid of null'') \<and>
   reactToMessages_change (\<lambda>i. Some [JObj [(''args'', JNull)]]) ''abc''
       \<lparr>console = [], cb_calls = []\<rparr>
     = Inr \<lparr>console = [],
            cb_calls = [CbCall (Some (Error ''Received message without args'')) []]\<rparr>"
  by (simp add: reactToMessages_change_def and_then_def index_name_0)

section \<open>Properties of the prepared messages\<close>

text \<open>
  C10, as amended. When \<open>content\<close> is an array and \<open>roomId\<close> is not the empty string,
  every prepared message has its room id set to \<open>roomId\<close>; when \<open>roomId\<close> is the empty
  string, no room id is set on them. When \<open>content\<close> is not an array, the one message
  is prepared without \<open>roomId\<close> being applied to it.
\<close>

theorem sendMessageByRoomId_prepares:
  "(roomId \<noteq> [] \<longrightarrow>
      sendMessageByRoomId_messages newMessage setRoomId (JArr texts) roomId
        = map (\<lambda>text. setRoomId roomId (newMessage text)) texts) \<and>
   sendMessageByRoomId_messages newMessage setRoomId (JArr texts) [] = map newMessage texts \<and>
   ((\<forall>xs. content \<noteq> JArr xs) \<longrightarrow>
      sendMessageByRoomId_messages newMessage setRoomId content roomId = [newMessage content])"
  by (cases content) (simp_all add: sendMessageByRoomId_messages_def prepareMessage_def)

theorem sendMessageByRoomId_prepares_witness:
  "sendMessageByRoomId_messages (\<lambda>c. (c, None)) (\<lambda>r m. (fst m, Some r))
       (JArr [JStr ''hi'', JStr ''ho'']) ''GENERAL''
     = [(JStr ''hi'', Some ''GENERAL''), (JStr ''ho'', Some ''GENERAL'')] \<and>
   sendMessageByRoomId_messages (\<lambda>c. (c, None)) (\<lambda>r m. (fst m, Some r))
       (JStr ''hi'') ''GENERAL''
     = [(JStr ''hi'', None)]"
  using sendMessageByRoomId_prepares[of "''GENERAL''" "\<lambda>c. (c, None)" "\<lambda>r m. (fst m, Some r)"
      "[JStr ''hi'', JStr ''ho'']" "JStr ''hi''"]
  by simp

text \<open>
  C10 as stated fails: with an array and the empty string as \<open>roomId\<close>, the guard
  \<open>if (roomId)\<close> of \<open>prepareMessage\<close> skips \<open>setRoomId\<close>. Here a message is the pair
  of its content and the room id it was given, if any.
\<close>

theorem sendMessageByRoomId_empty_roomId_not_set:
  "sendMessageByRoomId_messages (\<lambda>c. (c, None)) (\<lambda>r m. (fst m, Some r))
       (JArr [JStr ''hi'']) ''''
     = [(JStr ''hi'', None)] \<and>
   map snd (sendMessageByRoomId_messages (\<lambda>c. (c, None)) (\<lambda>r m. (fst m, Some r))
       (JArr [JStr ''hi'']) '''') \<noteq> [Some '''']"
  by (simp add: sendMessageByRoomId_messages_def prepareMessage_def)

end
